theory Spec2Isabelle
  imports Main "HOL-Library.Multiset"
begin

section \<open>Python built-ins used by the importer\<close>

type_synonym path = string

text \<open>
  \<^verbatim>\<open>s.replace(old, new)\<close>: every non-overlapping occurrence of \<open>old\<close> in \<open>s\<close>, found
  from the left, is replaced by \<open>new\<close>; an empty \<open>old\<close> matches before every character
  and at the end.
\<close>

function str_replace :: "string \<Rightarrow> string \<Rightarrow> string \<Rightarrow> string" where
  "str_replace old new [] = (if old = [] then new else [])"
| "str_replace old new (c # cs) =
     (if old = [] then new @ c # str_replace old new cs
      else if take (length old) (c # cs) = old
        then new @ str_replace old new (drop (length old) (c # cs))
      else c # str_replace old new cs)"
  by pat_completeness auto
termination
  by (relation "measure (\<lambda>(old, new, s). length s)") auto

text \<open>
  \<^verbatim>\<open>os.path.join(a, b)\<close> of posixpath: an absolute \<open>b\<close> discards \<open>a\<close>; otherwise the
  separator is inserted unless \<open>a\<close> is empty or already ends with it.
\<close>

definition os_path_join :: "path \<Rightarrow> path \<Rightarrow> path" where
  "os_path_join a b =
     (if take 1 b = ''/'' then b
      else if a = [] \<or> last a = CHR ''/'' then a @ b
      else a @ ''/'' @ b)"

section \<open>Configuration\<close>

text \<open>
  The values the importer reads from its configuration modules. \<open>version\<close> is
  \<^verbatim>\<open>str(config.version)\<close>; \<open>ontologiesImportDir\<close>, \<open>databasesImportDir\<close>,
  \<open>experimentsImportDirectory\<close> and \<open>experimentsDir\<close> come from the handlers' own
  configuration modules.
\<close>

record config =
  importDirectory :: path
  statsDirectory :: path
  statsFile :: string
  statsCols :: "string list"
  version :: string
  ontologiesImportDir :: path
  databasesImportDir :: path
  experimentsImportDirectory :: path
  experimentsDir :: path

text \<open>The column list of \<^verbatim>\<open>builder_config.py\<close>, line 17.\<close>

definition builder_statsCols :: "string list" where
  "builder_statsCols =
     [''date'', ''time'', ''dataset'', ''filename'', ''file_size'',
      ''Imported_number'', ''Import_type'', ''name'']"

section \<open>The statistics key\<close>

definition getStatsName :: "config \<Rightarrow> string" where
  "getStatsName cfg = ''stats_'' @ str_replace ''.'' ''_'' (version cfg)"

section \<open>Statistic records and frames\<close>

text \<open>
  A statistic record is the tuple an importer returns for one artifact; a frame is a
  pandas DataFrame: its column labels and its rows. \<open>Missing\<close> is the filler of a
  position a short tuple did not have.
\<close>

datatype cell = Str string | Num int | Missing

record frame =
  columns :: "string list"
  rows :: "cell list list"

datatype error = ValueError | AttributeError | OSError | TypeError

text \<open>
  \<^verbatim>\<open>pd.DataFrame.from_records(data, columns=cols)\<close> on a list of tuples: no tuple gives
  the empty frame with the columns asked for; otherwise the tuples are laid out in a table
  as wide as the longest of them, shorter ones filled up, and that width has to be the
  number of columns or the call raises.
\<close>

definition from_records :: "cell list list \<Rightarrow> string list \<Rightarrow> error + frame" where
  "from_records data cols =
     (if data = [] then Inr \<lparr>columns = cols, rows = []\<rparr>
      else let width = foldr (\<lambda>r. max (length r)) data 0 in
        if width = length cols
        then Inr \<lparr>columns = cols,
                  rows = map (\<lambda>r. r @ replicate (width - length r) Missing) data\<rparr>
        else Inl ValueError)"

definition generateStatsDataFrame :: "config \<Rightarrow> cell list list \<Rightarrow> error + frame" where
  "generateStatsDataFrame cfg stats = from_records stats (statsCols cfg)"

section \<open>The HDF store\<close>

text \<open>
  The content of the statistics file: the tables of the store under their keys.
  \<open>hdf_put\<close> stores a frame under a key, in place of what the key held;
  \<open>hdf_append\<close> adds the rows of a frame to the table of the key, which it creates
  when the key is new. The importer does not compare the columns of a frame with those
  of the table it appends to, and neither does the store here.
\<close>

type_synonym hdfstore = "(string \<times> frame) list"

fun hdf_put :: "string \<Rightarrow> frame \<Rightarrow> hdfstore \<Rightarrow> hdfstore" where
  "hdf_put key df [] = [(key, df)]"
| "hdf_put key df ((k, t) # st) =
     (if k = key then (key, df) # st else (k, t) # hdf_put key df st)"

definition hdf_append :: "string \<Rightarrow> frame \<Rightarrow> hdfstore \<Rightarrow> hdfstore" where
  "hdf_append key df st =
     (case map_of st key of
        None \<Rightarrow> hdf_put key df st
      | Some t \<Rightarrow> hdf_put key (t\<lparr>rows := rows t @ rows df\<rparr>) st)"

definition table_rows :: "hdfstore \<Rightarrow> string \<Rightarrow> cell list list" where
  "table_rows st key = (case map_of st key of None \<Rightarrow> [] | Some t \<Rightarrow> rows t)"

definition row_count :: "hdfstore \<Rightarrow> nat" where
  "row_count st = sum_list (map (\<lambda>kt. length (rows (snd kt))) st)"

section \<open>The statistics location on disk\<close>

text \<open>
  What the importer can observe at the two paths it touches, \<^verbatim>\<open>statsDirectory\<close> and
  \<^verbatim>\<open>os.path.join(statsDirectory, config.statsFile)\<close>: the statistics directory is
  absent, is something other than a directory, or is a directory; in a directory the
  statistics file is absent, is a directory, or is a regular file holding a store.
\<close>

datatype file_node = NoFile | IsDirectory | RegularFile hdfstore

datatype stats_location = DirAbsent | DirNotADirectory | DirExists file_node

text \<open>\<^verbatim>\<open>os.path.exists(statsDirectory)\<close> and \<^verbatim>\<open>os.path.isfile(statsFile)\<close>.\<close>

definition os_path_exists :: "stats_location \<Rightarrow> bool" where
  "os_path_exists loc = (loc \<noteq> DirAbsent)"

fun os_path_isfile :: "stats_location \<Rightarrow> bool" where
  "os_path_isfile (DirExists (RegularFile st)) = True"
| "os_path_isfile loc = False"

text \<open>\<^verbatim>\<open>os.makedirs(statsDirectory)\<close>: raises when the path is already there.\<close>

fun os_makedirs :: "stats_location \<Rightarrow> error + stats_location" where
  "os_makedirs DirAbsent = Inr (DirExists NoFile)"
| "os_makedirs loc = Inl OSError"

text \<open>
  \<^verbatim>\<open>pd.HDFStore(statsFile)\<close>, in its default mode: an existing store is opened
  as it is, a missing file is created empty in its directory, anything else raises.
  The result is the open store and the location after the call.
\<close>

fun HDFStore :: "stats_location \<Rightarrow> error + hdfstore \<times> stats_location" where
  "HDFStore (DirExists (RegularFile st)) = Inr (st, DirExists (RegularFile st))"
| "HDFStore (DirExists NoFile) = Inr ([], DirExists (RegularFile []))"
| "HDFStore loc = Inl OSError"

section \<open>The statistics store of the importer\<close>

text \<open>
  Every operation returns the exception it raised, if any, and the location as the
  call left it.
\<close>

definition createEmptyStats ::
  "string list \<Rightarrow> string \<Rightarrow> stats_location \<Rightarrow> error option \<times> stats_location" where
  "createEmptyStats cols statsName loc =
     (let statsDf = \<lparr>columns = cols, rows = []\<rparr> in
      case HDFStore loc of
        Inl e \<Rightarrow> (Some e, loc)
      | Inr (hdf, loc') \<Rightarrow> (None, DirExists (RegularFile (hdf_put statsName statsDf hdf))))"

definition setupStats :: "config \<Rightarrow> stats_location \<Rightarrow> error option \<times> stats_location" where
  "setupStats cfg loc =
     (let cols = statsCols cfg; statsName = getStatsName cfg in
      if \<not> os_path_exists loc \<or> \<not> os_path_isfile loc then
        if \<not> os_path_exists loc then
          (case os_makedirs loc of
             Inl e \<Rightarrow> (Some e, loc)
           | Inr loc' \<Rightarrow> createEmptyStats cols statsName loc')
        else createEmptyStats cols statsName loc
      else (None, loc))"

definition loadStats :: "stats_location \<Rightarrow> (error + hdfstore option) \<times> stats_location" where
  "loadStats loc =
     (if os_path_isfile loc then
        (case HDFStore loc of
           Inl e \<Rightarrow> (Inl e, loc)
         | Inr (hdf, loc') \<Rightarrow> (Inr (Some hdf), loc'))
      else (Inr None, loc))"

text \<open>
  \<open>writeStats\<close>: a \<open>None\<close> from \<open>loadStats\<close> has no \<open>append\<close>, which raises
  before anything is written.
\<close>

definition writeStats ::
  "config \<Rightarrow> frame \<Rightarrow> string option \<Rightarrow> stats_location \<Rightarrow> error option \<times> stats_location" where
  "writeStats cfg statsDf statsName loc =
     (let name = (case statsName of None \<Rightarrow> getStatsName cfg | Some n \<Rightarrow> n) in
      case loadStats loc of
        (Inl e, loc') \<Rightarrow> (Some e, loc')
      | (Inr None, loc') \<Rightarrow> (Some AttributeError, loc')
      | (Inr (Some hdf), loc') \<Rightarrow>
          (None, DirExists (RegularFile (hdf_append name statsDf hdf))))"

section \<open>The ledger seen as a state machine\<close>

text \<open>
  The rows of one table and of all tables of the ledger at a location (none when there
  is no regular file), and the three states of the ledger file: no regular file, a
  store without rows, a store with rows.
\<close>

definition ledger_table :: "stats_location \<Rightarrow> string \<Rightarrow> cell list list" where
  "ledger_table loc key =
     (case loc of DirExists (RegularFile st) \<Rightarrow> table_rows st key | _ \<Rightarrow> [])"

definition ledger_rows :: "stats_location \<Rightarrow> nat" where
  "ledger_rows loc = (case loc of DirExists (RegularFile st) \<Rightarrow> row_count st | _ \<Rightarrow> 0)"








section \<open>Collaborators and the calls made to them\<close>

text \<open>
  An optional list of names as Python passes it: \<open>None\<close>, a list of strings, or a
  string. A \<^verbatim>\<open>for\<close> over a list yields its items, over a string its characters, each
  a string of length one; \<open>None\<close> cannot be iterated.
\<close>

datatype pyarg = PyNone | PyList "string list" | PyStr string

fun py_iter :: "pyarg \<Rightarrow> error + string list" where
  "py_iter PyNone = Inl TypeError"
| "py_iter (PyList xs) = Inr xs"
| "py_iter (PyStr s) = Inr (map (\<lambda>c. [c]) s)"

text \<open>
  The handlers are outside the importer and are taken to return: the two
  \<^verbatim>\<open>generateGraphFiles\<close> give the statistic records of what they wrote, one tuple
  per artifact, and \<open>cpu_count\<close> is the machine's. \<^verbatim>\<open>utils.listDirectoryFolders\<close> is
  not among the sources either: it is the listing of the subdirectories of a directory
  of the experiments tree, which the import does not write to. Every call to a
  collaborator is recorded, in the order it is made.
\<close>

record handlers =
  oh_generateGraphFiles :: "path \<Rightarrow> pyarg \<Rightarrow> cell list list"
  dh_generateGraphFiles :: "path \<Rightarrow> pyarg \<Rightarrow> int \<Rightarrow> cell list list"
  listDirectoryFolders :: "path \<Rightarrow> string list"
  cpu_count :: nat

datatype event =
  CheckDirectory path
| OntologiesGenerateGraphFiles path pyarg
| DatabasesGenerateGraphFiles path pyarg int
| ListDirectoryFolders path
| GenerateDatasetImports string string
| PrintElapsed

record world =
  ledger :: stats_location
  calls :: "event list"

definition record_call :: "event \<Rightarrow> world \<Rightarrow> world" where
  "record_call e w = w\<lparr>calls := calls w @ [e]\<rparr>"

text \<open>
  Modelled from the spec: \<^verbatim>\<open>utils.checkDirectory\<close> is not among the sources. It
  ensures that the directory exists, creating it when absent, and is a no-op without
  error otherwise; here the call is recorded.
\<close>

definition checkDirectory :: "path \<Rightarrow> world \<Rightarrow> world" where
  "checkDirectory directory w = record_call (CheckDirectory directory) w"

text \<open>Sequencing: an exception ends the run with the world as it is.\<close>

definition and_then ::
  "error option \<times> world \<Rightarrow> (world \<Rightarrow> error option \<times> world) \<Rightarrow> error option \<times> world" where
  "and_then r f = (case r of (Some e, w) \<Rightarrow> (Some e, w) | (None, w) \<Rightarrow> f w)"

definition on_ledger ::
  "(stats_location \<Rightarrow> error option \<times> stats_location) \<Rightarrow> world \<Rightarrow> error option \<times> world" where
  "on_ledger f w = (case f (ledger w) of (r, loc) \<Rightarrow> (r, w\<lparr>ledger := loc\<rparr>))"

section \<open>The import stages\<close>

definition ontologiesImport ::
  "config \<Rightarrow> handlers \<Rightarrow> path \<Rightarrow> pyarg \<Rightarrow> world \<Rightarrow> error option \<times> world" where
  "ontologiesImport cfg env importDir ontologies w =
     (let ontologiesImportDirectory = os_path_join importDir (ontologiesImportDir cfg);
          w1 = checkDirectory ontologiesImportDirectory w;
          stats = oh_generateGraphFiles env ontologiesImportDirectory ontologies;
          w2 = record_call (OntologiesGenerateGraphFiles ontologiesImportDirectory ontologies) w1
      in case generateStatsDataFrame cfg stats of
           Inl e \<Rightarrow> (Some e, w2)
         | Inr statsDf \<Rightarrow> on_ledger (writeStats cfg statsDf None) w2)"

definition databasesImport ::
  "config \<Rightarrow> handlers \<Rightarrow> path \<Rightarrow> pyarg \<Rightarrow> int \<Rightarrow> world \<Rightarrow> error option \<times> world" where
  "databasesImport cfg env importDir databases n_jobs w =
     (let databasesImportDirectory = os_path_join importDir (databasesImportDir cfg);
          w1 = checkDirectory databasesImportDirectory w;
          stats = dh_generateGraphFiles env databasesImportDirectory databases n_jobs;
          w2 = record_call
                 (DatabasesGenerateGraphFiles databasesImportDirectory databases n_jobs) w1
      in case generateStatsDataFrame cfg stats of
           Inl e \<Rightarrow> (Some e, w2)
         | Inr statsDf \<Rightarrow> on_ledger (writeStats cfg statsDf None) w2)"

text \<open>
  \<open>experimentImport\<close> touches no ledger: it is the sequence of calls it makes for one
  project.
\<close>

definition experimentImport :: "handlers \<Rightarrow> path \<Rightarrow> path \<Rightarrow> string \<Rightarrow> event list" where
  "experimentImport env importDir experimentsDirectory project =
     (let projectPath = os_path_join importDir project;
          projectDirectory = os_path_join experimentsDirectory project;
          datasets = listDirectoryFolders env projectDirectory
      in [CheckDirectory projectPath, ListDirectoryFolders projectDirectory]
         @ concat (map (\<lambda>dataset.
              [CheckDirectory (os_path_join projectPath dataset),
               GenerateDatasetImports project dataset]) datasets))"

section \<open>The worker pool\<close>

text \<open>
  \<^verbatim>\<open>joblib\<close>'s reading of \<open>n_jobs\<close>: zero is refused, a negative number counts back from
  the number of processors, and there is always at least one worker.
\<close>

definition effective_n_jobs :: "nat \<Rightarrow> int \<Rightarrow> nat option" where
  "effective_n_jobs cpus n_jobs =
     (if n_jobs = 0 then None
      else if n_jobs < 0 then Some (nat (max (int cpus + 1 + n_jobs) 1))
      else Some (nat n_jobs))"

text \<open>
  A pool of \<open>n\<close> workers. \<open>pool n pending running trace\<close>: the jobs still to be
  dispatched, in order, the calls each running job has still to make, and a sequence
  of calls the pool can make from there until every job is done. A job is dispatched
  to a free worker; any running job makes its next call; a job with no call left
  frees its worker.
\<close>

inductive pool :: "nat \<Rightarrow> event list list \<Rightarrow> event list list \<Rightarrow> event list \<Rightarrow> bool" where
  pool_done: "pool n [] [] []"
| pool_dispatch:
    "length running < n \<Longrightarrow> pool n pending (running @ [job]) trace \<Longrightarrow>
       pool n (job # pending) running trace"
| pool_step:
    "i < length running \<Longrightarrow> running ! i = e # es \<Longrightarrow>
     pool n pending (running[i := es]) trace \<Longrightarrow>
       pool n pending running (e # trace)"
| pool_finish:
    "i < length running \<Longrightarrow> running ! i = [] \<Longrightarrow>
     pool n pending (take i running @ drop (Suc i) running) trace \<Longrightarrow>
       pool n pending running trace"

code_pred pool .

text \<open>\<^verbatim>\<open>Parallel(n_jobs=n_jobs)(jobs)\<close>: the exception, or the calls of one schedule.\<close>

inductive Parallel :: "nat \<Rightarrow> int \<Rightarrow> event list list \<Rightarrow> error + event list \<Rightarrow> bool" where
  Parallel_refused:
    "effective_n_jobs cpus n_jobs = None \<Longrightarrow> Parallel cpus n_jobs jobs (Inl ValueError)"
| Parallel_ran:
    "effective_n_jobs cpus n_jobs = Some n \<Longrightarrow> pool n jobs [] trace \<Longrightarrow>
       Parallel cpus n_jobs jobs (Inr trace)"

code_pred Parallel .

section \<open>The experiments stage and the full import\<close>

text \<open>
  The first half of \<open>experimentsImport\<close>: the import directory is provisioned and
  \<open>projects\<close>, when it is \<open>None\<close>, becomes the listing of the experiments directory.
\<close>

definition experimentsImport_projects ::
  "config \<Rightarrow> handlers \<Rightarrow> pyarg \<Rightarrow> world \<Rightarrow> pyarg \<times> world" where
  "experimentsImport_projects cfg env projects w =
     (let w1 = checkDirectory (experimentsImportDirectory cfg) w in
      if projects = PyNone
      then (PyList (listDirectoryFolders env (experimentsDir cfg)),
            record_call (ListDirectoryFolders (experimentsDir cfg)) w1)
      else (projects, w1))"

inductive experimentsImport ::
  "config \<Rightarrow> handlers \<Rightarrow> pyarg \<Rightarrow> int \<Rightarrow> world \<Rightarrow> error option \<times> world \<Rightarrow> bool"
  for cfg env projects n_jobs w where
  experimentsImport_not_iterable:
    "experimentsImport_projects cfg env projects w = (ps, w1) \<Longrightarrow> py_iter ps = Inl e \<Longrightarrow>
       experimentsImport cfg env projects n_jobs w (Some e, w1)"
| experimentsImport_raised:
    "experimentsImport_projects cfg env projects w = (ps, w1) \<Longrightarrow> py_iter ps = Inr targets \<Longrightarrow>
     Parallel (cpu_count env) n_jobs
       (map (experimentImport env (experimentsImportDirectory cfg) (experimentsDir cfg)) targets)
       (Inl e) \<Longrightarrow>
       experimentsImport cfg env projects n_jobs w (Some e, w1)"
| experimentsImport_done:
    "experimentsImport_projects cfg env projects w = (ps, w1) \<Longrightarrow> py_iter ps = Inr targets \<Longrightarrow>
     Parallel (cpu_count env) n_jobs
       (map (experimentImport env (experimentsImportDirectory cfg) (experimentsDir cfg)) targets)
       (Inr trace) \<Longrightarrow>
       experimentsImport cfg env projects n_jobs w (None, w1\<lparr>calls := calls w1 @ trace\<rparr>)"

code_pred experimentsImport .

text \<open>
  \<open>fullImport\<close> up to the experiments stage, which is a function of the world, and
  \<open>fullImport\<close> itself. The experiments stage is called with the import directory in
  the place of \<open>projects\<close>, as the source has it.
\<close>

definition fullImport_ledger_stages ::
  "config \<Rightarrow> handlers \<Rightarrow> world \<Rightarrow> error option \<times> world" where
  "fullImport_ledger_stages cfg env w =
     (let importDir = importDirectory cfg in
      and_then (and_then (and_then (None, checkDirectory importDir w)
        (on_ledger (setupStats cfg)))
        (ontologiesImport cfg env importDir PyNone))
        (\<lambda>w. databasesImport cfg env importDir PyNone 4 (record_call PrintElapsed w)))"

inductive fullImport :: "config \<Rightarrow> handlers \<Rightarrow> world \<Rightarrow> error option \<times> world \<Rightarrow> bool"
  for cfg env w where
  fullImport_aborted:
    "fullImport_ledger_stages cfg env w = (Some e, w1) \<Longrightarrow> fullImport cfg env w (Some e, w1)"
| fullImport_experiments_raised:
    "fullImport_ledger_stages cfg env w = (None, w1) \<Longrightarrow>
     experimentsImport cfg env (PyStr (importDirectory cfg)) 4 (record_call PrintElapsed w1)
       (Some e, w2) \<Longrightarrow>
       fullImport cfg env w (Some e, w2)"
| fullImport_done:
    "fullImport_ledger_stages cfg env w = (None, w1) \<Longrightarrow>
     experimentsImport cfg env (PyStr (importDirectory cfg)) 4 (record_call PrintElapsed w1)
       (None, w2) \<Longrightarrow>
       fullImport cfg env w (None, record_call PrintElapsed w2)"

code_pred fullImport .

section \<open>A concrete configuration\<close>

text \<open>
  The paths and columns of \<^verbatim>\<open>builder_config.py\<close>, with a release version and the
  handlers' directories filled in, and one statistic record, for evaluating the
  importer on concrete inputs.
\<close>

definition example_config :: config where
  "example_config =
     \<lparr>importDirectory = ''../../../data/imports'',
      statsDirectory = ''../../../data/imports/stats'',
      statsFile = ''stats.hdf'',
      statsCols = builder_statsCols,
      version = ''1.0'',
      ontologiesImportDir = ''ontologies'',
      databasesImportDir = ''databases'',
      experimentsImportDirectory = ''../../../data/imports/experiments'',
      experimentsDir = ''../../../data/experiments''\<rparr>"

definition example_record :: "cell list" where
  "example_record =
     [Str ''2018-06-01'', Str ''10:15:00'', Str ''DO'', Str ''Disease.csv'',
      Num 2048, Num 9000, Str ''entity'', Str ''Disease'']"

definition example_frame :: frame where
  "example_frame = \<lparr>columns = builder_statsCols, rows = [example_record]\<rparr>"

text \<open>
  Handlers for the examples: an experiments directory with the projects \<open>P1\<close> and
  \<open>P2\<close>, each with one dataset \<open>d1\<close>; \<open>quiet_handlers\<close> are the same with importers
  that return no statistic record.
\<close>

definition example_handlers :: handlers where
  "example_handlers =
     \<lparr>oh_generateGraphFiles = (\<lambda>dir names. [example_record]),
      dh_generateGraphFiles = (\<lambda>dir names n_jobs. [example_record, example_record]),
      listDirectoryFolders = (\<lambda>dir.
        if dir = ''../../../data/experiments'' \<or> dir = ''../../../data/experiments/.''
          then [''P1'', ''P2'']
        else if dir = ''../../../data/experiments/P1'' \<or> dir = ''../../../data/experiments/P2''
          then [''d1'']
        else []),
      cpu_count = 4\<rparr>"

definition quiet_handlers :: handlers where
  "quiet_handlers =
     example_handlers\<lparr>oh_generateGraphFiles := (\<lambda>dir names. []),
                       dh_generateGraphFiles := (\<lambda>dir names n_jobs. [])\<rparr>"

definition example_world :: world where
  "example_world =
     \<lparr>ledger = DirExists (RegularFile [(''stats_1_0'', example_frame)]), calls = []\<rparr>"

section \<open>Properties of the statistics key\<close>

lemma str_replace_char:
  "str_replace [a] [b] s = map (\<lambda>c. if c = a then b else c) s"
  by (induction s) auto

text \<open>
  C2. \<open>getStatsName\<close> depends on the configured version string only: the result is
  \<open>stats_\<close> followed by the version with every dot replaced by an underscore, the
  other characters kept in place. Version 1.0 gives \<open>stats_1_0\<close> and version 2.3.1
  gives \<open>stats_2_3_1\<close>.
\<close>

theorem getStatsName_replaces_dots:
  "getStatsName cfg =
     ''stats_'' @ map (\<lambda>c. if c = CHR ''.'' then CHR ''_'' else c) (version cfg)
   \<and> getStatsName (cfg\<lparr>version := ''1.0''\<rparr>) = ''stats_1_0''
   \<and> getStatsName (cfg\<lparr>version := ''2.3.1''\<rparr>) = ''stats_2_3_1''"
  by (simp add: getStatsName_def str_replace_char)

text \<open>
  C10. \<open>getStatsName\<close> is not injective in the version: the distinct versions
  \<open>1.0\<close> and \<open>1_0\<close> both give the key \<open>stats_1_0\<close>.
\<close>

theorem getStatsName_not_injective:
  "''1.0'' \<noteq> ''1_0''
   \<and> getStatsName (cfg\<lparr>version := ''1.0''\<rparr>) = ''stats_1_0''
   \<and> getStatsName (cfg\<lparr>version := ''1_0''\<rparr>) = ''stats_1_0''
   \<and> \<not> inj (\<lambda>v. getStatsName (cfg\<lparr>version := v\<rparr>))"
proof -
  have a: "getStatsName (cfg\<lparr>version := ''1.0''\<rparr>) = ''stats_1_0''"
    by (simp add: getStatsName_def str_replace_char)
  have b: "getStatsName (cfg\<lparr>version := ''1_0''\<rparr>) = ''stats_1_0''"
    by (simp add: getStatsName_def str_replace_char)
  have "\<not> inj (\<lambda>v. getStatsName (cfg\<lparr>version := v\<rparr>))"
  proof
    assume "inj (\<lambda>v. getStatsName (cfg\<lparr>version := v\<rparr>))"
    then have "''1.0'' = ''1_0''"
      by (rule injD) (simp only: a b)
    then show False by simp
  qed
  with a b show ?thesis by simp
qed

section \<open>Properties of the HDF store\<close>

lemma row_count_put_new:
  "map_of st key = None \<Longrightarrow> row_count (hdf_put key df st) = row_count st + length (rows df)"
  by (induction st) (auto simp: row_count_def)

lemma row_count_put_old:
  "map_of st key = Some t \<Longrightarrow>
     row_count (hdf_put key df st) + length (rows t) = row_count st + length (rows df)"
  by (induction st) (auto simp: row_count_def)

lemma row_count_append:
  "row_count (hdf_append key df st) = row_count st + length (rows df)"
proof (cases "map_of st key")
  case None
  then show ?thesis by (simp add: hdf_append_def row_count_put_new)
next
  case (Some t)
  from row_count_put_old [OF Some, of "t\<lparr>rows := rows t @ rows df\<rparr>"]
  show ?thesis using Some by (simp add: hdf_append_def)
qed

lemma map_of_put:
  "map_of (hdf_put key df st) k = (if k = key then Some df else map_of st k)"
  by (induction st) auto

lemma table_rows_append:
  "table_rows (hdf_append key df st) k =
     (if k = key then table_rows st key @ rows df else table_rows st k)"
  by (auto simp: table_rows_def hdf_append_def map_of_put split: option.splits)

section \<open>Properties of the statistics store\<close>

lemma writeStats_file:
  "writeStats cfg df name (DirExists (RegularFile st)) =
     (None, DirExists (RegularFile
        (hdf_append (case name of None \<Rightarrow> getStatsName cfg | Some n \<Rightarrow> n) df st)))"
  by (simp add: writeStats_def loadStats_def)


text \<open>
  C3. \<open>setupStats\<close> is idempotent. Where the statistics file is a regular file the
  call raises nothing and leaves the location, hence every table and row, as it found
  it. From any location at all, a second call in succession leaves what the first call
  left: the same location and the same number of rows.
\<close>

theorem setupStats_idempotent:
  "(os_path_isfile loc \<longrightarrow> setupStats cfg loc = (None, loc))
   \<and> snd (setupStats cfg (snd (setupStats cfg loc))) = snd (setupStats cfg loc)
   \<and> ledger_rows (snd (setupStats cfg (snd (setupStats cfg loc))))
       = ledger_rows (snd (setupStats cfg loc))"
  by (cases loc rule: HDFStore.cases)
     (auto simp: setupStats_def os_path_exists_def createEmptyStats_def Let_def)

theorem setupStats_idempotent_witness:
  "os_path_isfile (DirExists (RegularFile [(''stats_1_0'', example_frame)]))
   \<and> setupStats example_config (DirExists (RegularFile [(''stats_1_0'', example_frame)]))
       = (None, DirExists (RegularFile [(''stats_1_0'', example_frame)]))
   \<and> snd (setupStats example_config (snd (setupStats example_config DirAbsent)))
       = snd (setupStats example_config DirAbsent)"
  using setupStats_idempotent
          [of "DirExists (RegularFile [(''stats_1_0'', example_frame)])" example_config]
        setupStats_idempotent [of DirAbsent example_config]
  by simp





section \<open>The ledger only moves forward\<close>










section \<open>Properties of the frames\<close>





section \<open>Properties of the stages that write statistics\<close>


lemma ontologiesImport_file:
  assumes "ledger w = DirExists (RegularFile st)"
    and "generateStatsDataFrame cfg
           (oh_generateGraphFiles env (os_path_join importDir (ontologiesImportDir cfg)) names)
         = Inr df"
  shows "ontologiesImport cfg env importDir names w =
     (None, w\<lparr>ledger := DirExists (RegularFile (hdf_append (getStatsName cfg) df st)),
              calls := calls w
                @ [CheckDirectory (os_path_join importDir (ontologiesImportDir cfg)),
                   OntologiesGenerateGraphFiles
                     (os_path_join importDir (ontologiesImportDir cfg)) names]\<rparr>)"
  using assms
  by (simp add: ontologiesImport_def Let_def on_ledger_def checkDirectory_def record_call_def
        writeStats_file)

lemma databasesImport_file:
  assumes "ledger w = DirExists (RegularFile st)"
    and "generateStatsDataFrame cfg
           (dh_generateGraphFiles env (os_path_join importDir (databasesImportDir cfg)) names n)
         = Inr df"
  shows "databasesImport cfg env importDir names n w =
     (None, w\<lparr>ledger := DirExists (RegularFile (hdf_append (getStatsName cfg) df st)),
              calls := calls w
                @ [CheckDirectory (os_path_join importDir (databasesImportDir cfg)),
                   DatabasesGenerateGraphFiles
                     (os_path_join importDir (databasesImportDir cfg)) names n]\<rparr>)"
  using assms
  by (simp add: databasesImport_def Let_def on_ledger_def checkDirectory_def record_call_def
        writeStats_file)





text \<open>
  C9. From no statistic record \<open>generateStatsDataFrame\<close> makes the frame with the
  configured columns, eight of them in the builder's configuration, and no row. When
  the ledger is a regular file, an \<open>ontologiesImport\<close> or a \<open>databasesImport\<close> whose
  handler returns no record succeeds, and every table of the ledger has afterwards the
  rows it had: nothing is appended.
\<close>

theorem empty_stats_append_nothing:
  fixes cfg :: config and env :: handlers and w :: world and importDir :: path
    and names :: pyarg and n_jobs :: int
  defines "ontologies \<equiv> ontologiesImport cfg env importDir names w"
  defines "databases \<equiv> databasesImport cfg env importDir names n_jobs w"
  shows "generateStatsDataFrame cfg [] = Inr \<lparr>columns = statsCols cfg, rows = []\<rparr>
    \<and> generateStatsDataFrame (cfg\<lparr>statsCols := builder_statsCols\<rparr>) []
        = Inr \<lparr>columns = builder_statsCols, rows = []\<rparr>
    \<and> length builder_statsCols = 8
    \<and> (os_path_isfile (ledger w)
         \<and> oh_generateGraphFiles env (os_path_join importDir (ontologiesImportDir cfg)) names = []
         \<longrightarrow> fst ontologies = None
           \<and> (\<forall>k. ledger_table (ledger (snd ontologies)) k = ledger_table (ledger w) k)
           \<and> ledger_rows (ledger (snd ontologies)) = ledger_rows (ledger w))
    \<and> (os_path_isfile (ledger w)
         \<and> dh_generateGraphFiles env (os_path_join importDir (databasesImportDir cfg)) names n_jobs
             = []
         \<longrightarrow> fst databases = None
           \<and> (\<forall>k. ledger_table (ledger (snd databases)) k = ledger_table (ledger w) k)
           \<and> ledger_rows (ledger (snd databases)) = ledger_rows (ledger w))"
proof -
  have e: "generateStatsDataFrame c [] = Inr \<lparr>columns = statsCols c, rows = []\<rparr>" for c
    by (simp add: generateStatsDataFrame_def from_records_def)
  have isfile: "os_path_isfile loc \<Longrightarrow> \<exists>st. loc = DirExists (RegularFile st)" for loc
    by (cases loc rule: os_path_isfile.cases) auto
  show ?thesis
    using ontologiesImport_file [of w _ cfg env importDir names "\<lparr>columns = statsCols cfg, rows = []\<rparr>"]
      databasesImport_file [of w _ cfg env importDir names n_jobs "\<lparr>columns = statsCols cfg, rows = []\<rparr>"]
      isfile [of "ledger w"]
    by (auto simp: e builder_statsCols_def ontologies_def databases_def ledger_table_def
          ledger_rows_def table_rows_append row_count_append)
qed


theorem empty_stats_append_nothing_witness:
  "os_path_isfile (ledger example_world)
   \<and> fst (ontologiesImport example_config quiet_handlers ''../../../data/imports'' PyNone
          example_world) = None
   \<and> ledger_rows (ledger (snd (ontologiesImport example_config quiet_handlers
        ''../../../data/imports'' PyNone example_world))) = 1
   \<and> fst (databasesImport example_config quiet_handlers ''../../../data/imports'' PyNone 4
          example_world) = None
   \<and> ledger_rows (ledger (snd (databasesImport example_config quiet_handlers
        ''../../../data/imports'' PyNone 4 example_world))) = 1"
proof -
  have isf: "os_path_isfile (ledger example_world)"
    by (simp add: example_world_def)
  have n: "ledger_rows (ledger example_world) = 1"
    by (simp add: example_world_def ledger_rows_def row_count_def example_frame_def)
  have oh: "oh_generateGraphFiles quiet_handlers d names = []" for d names
    by (simp add: quiet_handlers_def)
  have dh: "dh_generateGraphFiles quiet_handlers d names k = []" for d names k
    by (simp add: quiet_handlers_def)
  from empty_stats_append_nothing
         [where cfg = example_config and env = quiet_handlers and w = example_world
            and importDir = "''../../../data/imports''" and names = PyNone and n_jobs = 4]
  show ?thesis using isf n oh dh by simp
qed

section \<open>Properties of the worker pool\<close>

lemma mset_concat_update:
  "i < length xss \<Longrightarrow> xss ! i = e # es \<Longrightarrow>
     mset (concat xss) = add_mset e (mset (concat (xss[i := es])))"
proof (induction xss arbitrary: i)
  case Nil
  then show ?case by simp
next
  case (Cons xs xss)
  then show ?case by (cases i) auto
qed

lemma concat_remove_empty:
  "i < length xss \<Longrightarrow> xss ! i = [] \<Longrightarrow>
     concat (take i xss @ drop (Suc i) xss) = concat xss"
proof (induction xss arbitrary: i)
  case Nil
  then show ?case by simp
next
  case (Cons xs xss)
  then show ?case by (cases i) auto
qed

lemma pool_mset:
  "pool n pending running trace \<Longrightarrow>
     mset trace = mset (concat pending) + mset (concat running)"
proof (induction rule: pool.induct)
  case (pool_done n)
  then show ?case by simp
next
  case (pool_dispatch running n pending job trace)
  then show ?case by simp
next
  case (pool_step i running e es n pending trace)
  then show ?case by (simp add: mset_concat_update)
next
  case (pool_finish i running n pending trace)
  from pool_finish.hyps(1,2)
  have "concat (take i running @ drop (Suc i) running) = concat running"
    by (rule concat_remove_empty)
  then have "mset (concat (take i running)) + mset (concat (drop (Suc i) running))
      = mset (concat running)"
    by (metis concat_append mset_append)
  with pool_finish.IH show ?case by simp
qed

lemma pool_run_job:
  "pool n pending [] trace \<Longrightarrow> pool n pending [job] (job @ trace)"
proof (induction job)
  case Nil
  have "pool n pending (take 0 [[]] @ drop (Suc 0) [[]]) trace" using Nil by simp
  then have "pool n pending [[]] trace"
    by (rule pool_finish [rotated 2]) simp_all
  then show ?case by simp
next
  case (Cons e es)
  then have "pool n pending ([e # es][0 := es]) (es @ trace)" by simp
  then have "pool n pending [e # es] (e # es @ trace)"
    by (rule pool_step [rotated 2]) simp_all
  then show ?case by simp
qed

lemma pool_sequential: "0 < n \<Longrightarrow> pool n jobs [] (concat jobs)"
proof (induction jobs)
  case Nil
  then show ?case by (simp add: pool_done)
next
  case (Cons job jobs)
  then have "pool n jobs ([] @ [job]) (job @ concat jobs)"
    by (simp add: pool_run_job)
  with Cons.prems have "pool n (job # jobs) [] (job @ concat jobs)"
    by (intro pool_dispatch) simp_all
  then show ?case by simp
qed

lemma effective_n_jobs_positive:
  "n_jobs \<noteq> 0 \<Longrightarrow> \<exists>n. effective_n_jobs cpus n_jobs = Some n \<and> 0 < n"
  by (auto simp: effective_n_jobs_def)

lemma Parallel_sequential:
  "n_jobs \<noteq> 0 \<Longrightarrow> Parallel cpus n_jobs jobs (Inr (concat jobs))"
  using effective_n_jobs_positive [of n_jobs cpus]
  by (auto intro: Parallel_ran pool_sequential)

lemma Parallel_mset:
  "Parallel cpus n_jobs jobs (Inr trace) \<Longrightarrow> mset trace = mset (concat jobs)"
  by (auto elim!: Parallel.cases dest: pool_mset)


section \<open>Properties of the experiments stage\<close>


lemma count_dataset_calls:
  "count_list (concat (map (\<lambda>dataset.
       [CheckDirectory (f dataset), GenerateDatasetImports p dataset]) ds))
     (GenerateDatasetImports q d)
   = (if q = p then count_list ds d else 0)"
  by (induction ds) auto

lemma count_experimentImport:
  "count_list (experimentImport env importDir experimentsDirectory p)
     (GenerateDatasetImports q d)
   = (if q = p
      then count_list (listDirectoryFolders env (os_path_join experimentsDirectory p)) d
      else 0)"
  by (simp add: experimentImport_def Let_def count_dataset_calls)

lemma count_jobs:
  "count_list (concat (map (experimentImport env importDir experimentsDirectory) ps))
     (GenerateDatasetImports q d)
   = count_list ps q
     * count_list (listDirectoryFolders env (os_path_join experimentsDirectory q)) d"
  by (induction ps) (auto simp: count_experimentImport)








section \<open>The full import\<close>

lemma on_ledger_calls: "on_ledger f w = (r, w') \<Longrightarrow> calls w' = calls w"
  by (auto simp: on_ledger_def split: prod.splits)

lemma ontologiesImport_calls:
  "ontologiesImport cfg env importDir names w = (r, w') \<Longrightarrow>
     calls w' = calls w
       @ [CheckDirectory (os_path_join importDir (ontologiesImportDir cfg)),
          OntologiesGenerateGraphFiles (os_path_join importDir (ontologiesImportDir cfg)) names]"
  by (auto simp: ontologiesImport_def Let_def checkDirectory_def record_call_def
        split: sum.splits dest!: on_ledger_calls)

lemma databasesImport_calls:
  "databasesImport cfg env importDir names n w = (r, w') \<Longrightarrow>
     calls w' = calls w
       @ [CheckDirectory (os_path_join importDir (databasesImportDir cfg)),
          DatabasesGenerateGraphFiles (os_path_join importDir (databasesImportDir cfg)) names n]"
  by (auto simp: databasesImport_def Let_def checkDirectory_def record_call_def
        split: sum.splits dest!: on_ledger_calls)

lemma and_then_None:
  "and_then r f = (None, w') \<Longrightarrow> \<exists>w1. r = (None, w1) \<and> f w1 = (None, w')"
  by (cases r) (auto simp: and_then_def split: option.splits)

lemma ledger_stages_calls:
  assumes "fullImport_ledger_stages cfg env w = (None, w1)"
  shows "calls w1 = calls w
     @ [CheckDirectory (importDirectory cfg),
        CheckDirectory (os_path_join (importDirectory cfg) (ontologiesImportDir cfg)),
        OntologiesGenerateGraphFiles
          (os_path_join (importDirectory cfg) (ontologiesImportDir cfg)) PyNone,
        PrintElapsed,
        CheckDirectory (os_path_join (importDirectory cfg) (databasesImportDir cfg)),
        DatabasesGenerateGraphFiles
          (os_path_join (importDirectory cfg) (databasesImportDir cfg)) PyNone 4]"
proof -
  from assms obtain wa wb wc where
    a: "wa = checkDirectory (importDirectory cfg) w"
    and b: "on_ledger (setupStats cfg) wa = (None, wb)"
    and c: "ontologiesImport cfg env (importDirectory cfg) PyNone wb = (None, wc)"
    and d: "databasesImport cfg env (importDirectory cfg) PyNone 4 (record_call PrintElapsed wc)
              = (None, w1)"
    unfolding fullImport_ledger_stages_def Let_def
    by (auto dest!: and_then_None)
  from a have "calls wa = calls w @ [CheckDirectory (importDirectory cfg)]"
    by (simp add: checkDirectory_def record_call_def)
  with on_ledger_calls [OF b] ontologiesImport_calls [OF c] databasesImport_calls [OF d]
  show ?thesis by (simp add: record_call_def)
qed

lemma experimentsImport_PyStr_cases:
  assumes "experimentsImport cfg env (PyStr s) n_jobs w (None, w')"
  shows "\<exists>trace. w' = w\<lparr>calls := calls w
             @ [CheckDirectory (experimentsImportDirectory cfg)] @ trace\<rparr>
           \<and> mset trace = mset (concat (map
                 (experimentImport env (experimentsImportDirectory cfg) (experimentsDir cfg))
                 (map (\<lambda>c. [c]) s)))"
  using assms
proof (cases rule: experimentsImport.cases)
  case (experimentsImport_done ps w1 targets trace)
  then have "mset trace = mset (concat (map
                 (experimentImport env (experimentsImportDirectory cfg) (experimentsDir cfg))
                 (map (\<lambda>c. [c]) s)))"
    by (auto simp: experimentsImport_projects_def Let_def simp del: map_map
          dest: Parallel_mset)
  moreover have "w' = w\<lparr>calls := calls w
             @ [CheckDirectory (experimentsImportDirectory cfg)] @ trace\<rparr>"
    using experimentsImport_done
    by (auto simp: experimentsImport_projects_def Let_def checkDirectory_def record_call_def)
  ultimately show ?thesis by blast
qed

text \<open>
  C1, on the code. A successful \<open>fullImport\<close> provisions the import directory, sets
  the ledger up, and runs the ontologies stage and the databases stage (with four
  jobs) over everything configured, in this order. Its experiments stage, though, is
  handed the import directory where the list of projects is expected: the experiments
  directory is never listed for its projects, and \<open>experimentImport\<close> runs once for
  every character of the import directory's path, taken as a project name, so
  \<open>generateDatasetImports\<close> is called for a project only as often as the name is a
  character of that path.
\<close>

theorem fullImport_iterates_importDirectory:
  fixes cfg :: config and env :: handlers and w w' :: world
  defines "importDir \<equiv> importDirectory cfg"
  assumes run: "fullImport cfg env w (None, w')"
  shows "\<exists>trace.
     calls w' = calls w
       @ [CheckDirectory importDir,
          CheckDirectory (os_path_join importDir (ontologiesImportDir cfg)),
          OntologiesGenerateGraphFiles (os_path_join importDir (ontologiesImportDir cfg)) PyNone,
          PrintElapsed,
          CheckDirectory (os_path_join importDir (databasesImportDir cfg)),
          DatabasesGenerateGraphFiles (os_path_join importDir (databasesImportDir cfg)) PyNone 4,
          PrintElapsed,
          CheckDirectory (experimentsImportDirectory cfg)]
       @ trace @ [PrintElapsed]
     \<and> mset trace = mset (concat (map
          (experimentImport env (experimentsImportDirectory cfg) (experimentsDir cfg))
          (map (\<lambda>c. [c]) importDir)))
     \<and> (\<forall>p d. count_list trace (GenerateDatasetImports p d)
           = count_list (map (\<lambda>c. [c]) importDir) p
             * count_list (listDirectoryFolders env (os_path_join (experimentsDir cfg) p)) d)"
  using run
proof (cases rule: fullImport.cases)
  case (fullImport_done w1 w2)
  from experimentsImport_PyStr_cases [OF fullImport_done(3)]
  obtain trace where w2: "w2 = (record_call PrintElapsed w1)\<lparr>calls :=
        calls (record_call PrintElapsed w1)
          @ [CheckDirectory (experimentsImportDirectory cfg)] @ trace\<rparr>"
    and ms: "mset trace = mset (concat (map
          (experimentImport env (experimentsImportDirectory cfg) (experimentsDir cfg))
          (map (\<lambda>c. [c]) importDir)))"
    unfolding importDir_def by blast
  have "count_list trace (GenerateDatasetImports p d)
           = count_list (map (\<lambda>c. [c]) importDir) p
             * count_list (listDirectoryFolders env (os_path_join (experimentsDir cfg) p)) d"
    for p d
  proof -
    have "count_list trace (GenerateDatasetImports p d)
            = count (mset trace) (GenerateDatasetImports p d)"
      by (simp add: count_mset)
    then show ?thesis unfolding ms by (simp only: count_mset count_jobs)
  qed
  moreover have "calls w' = calls w
       @ [CheckDirectory importDir,
          CheckDirectory (os_path_join importDir (ontologiesImportDir cfg)),
          OntologiesGenerateGraphFiles (os_path_join importDir (ontologiesImportDir cfg)) PyNone,
          PrintElapsed,
          CheckDirectory (os_path_join importDir (databasesImportDir cfg)),
          DatabasesGenerateGraphFiles (os_path_join importDir (databasesImportDir cfg)) PyNone 4,
          PrintElapsed,
          CheckDirectory (experimentsImportDirectory cfg)]
       @ trace @ [PrintElapsed]"
    using ledger_stages_calls [OF fullImport_done(2)] fullImport_done(1) w2
    by (simp add: record_call_def importDir_def)
  ultimately show ?thesis using ms by blast
qed

lemma fullImport_runs:
  assumes "fullImport_ledger_stages cfg env w = (None, w1)"
  shows "\<exists>w'. fullImport cfg env w (None, w')"
proof -
  let ?w = "record_call PrintElapsed w1"
  have p: "experimentsImport_projects cfg env (PyStr (importDirectory cfg)) ?w
          = (PyStr (importDirectory cfg), checkDirectory (experimentsImportDirectory cfg) ?w)"
    by (simp add: experimentsImport_projects_def Let_def)
  have i: "py_iter (PyStr (importDirectory cfg)) = Inr (map (\<lambda>c. [c]) (importDirectory cfg))"
    by simp
  have n: "(4::int) \<noteq> 0" by simp
  from experimentsImport_done [OF p i Parallel_sequential [OF n]]
  obtain w2 where "experimentsImport cfg env (PyStr (importDirectory cfg)) 4 ?w (None, w2)"
    by blast
  with assms have "fullImport cfg env w (None, record_call PrintElapsed w2)"
    by (rule fullImport_done)
  then show ?thesis by blast
qed

lemma example_stages:
  "fst (fullImport_ledger_stages example_config example_handlers
      \<lparr>ledger = DirAbsent, calls = []\<rparr>) = None"
  by (simp add: fullImport_ledger_stages_def and_then_def on_ledger_def checkDirectory_def
        record_call_def setupStats_def os_path_exists_def createEmptyStats_def
        ontologiesImport_def databasesImport_def generateStatsDataFrame_def from_records_def
        writeStats_file example_config_def example_handlers_def example_record_def
        builder_statsCols_def Let_def)

theorem fullImport_iterates_importDirectory_witness:
  "\<exists>w'. fullImport example_config example_handlers \<lparr>ledger = DirAbsent, calls = []\<rparr> (None, w')
     \<and> count_list (calls w') (GenerateDatasetImports ''P1'' ''d1'') = 0
     \<and> count_list (calls w') (GenerateDatasetImports ''.'' ''P1'') = 6
     \<and> count_list (calls w') (ListDirectoryFolders ''../../../data/experiments'') = 0"
proof -
  obtain w1 where "fullImport_ledger_stages example_config example_handlers
      \<lparr>ledger = DirAbsent, calls = []\<rparr> = (None, w1)"
    using example_stages by (metis prod.collapse)
  from fullImport_runs [OF this]
  obtain w' where run:
    "fullImport example_config example_handlers \<lparr>ledger = DirAbsent, calls = []\<rparr> (None, w')"
    by blast
  from fullImport_iterates_importDirectory [OF run] obtain trace where
    c: "calls w' = [CheckDirectory ''../../../data/imports'',
          CheckDirectory ''../../../data/imports/ontologies'',
          OntologiesGenerateGraphFiles ''../../../data/imports/ontologies'' PyNone,
          PrintElapsed,
          CheckDirectory ''../../../data/imports/databases'',
          DatabasesGenerateGraphFiles ''../../../data/imports/databases'' PyNone 4,
          PrintElapsed,
          CheckDirectory ''../../../data/imports/experiments'']
       @ trace @ [PrintElapsed]"
    and ms: "mset trace = mset (concat (map
          (experimentImport example_handlers ''../../../data/imports/experiments''
             ''../../../data/experiments'')
          (map (\<lambda>c. [c]) ''../../../data/imports'')))"
    and n: "\<And>p d. count_list trace (GenerateDatasetImports p d)
           = count_list (map (\<lambda>c. [c]) ''../../../data/imports'') p
             * count_list (listDirectoryFolders example_handlers
                 (os_path_join ''../../../data/experiments'' p)) d"
    by (auto simp: example_config_def os_path_join_def)
  have l: "count_list trace (ListDirectoryFolders ''../../../data/experiments'') = 0"
  proof -
    have "count_list trace (ListDirectoryFolders ''../../../data/experiments'')
      = count (mset trace) (ListDirectoryFolders ''../../../data/experiments'')"
      by (simp add: count_mset)
    also have "\<dots> = 0"
      unfolding ms
      by (simp add: count_mset experimentImport_def os_path_join_def example_handlers_def)
    finally show ?thesis .
  qed
  have "count_list (calls w') (GenerateDatasetImports ''P1'' ''d1'') = 0"
    by (simp add: c n)
  moreover have "count_list (calls w') (GenerateDatasetImports ''.'' ''P1'') = 6"
    by (simp add: c n os_path_join_def example_handlers_def)
  moreover have "count_list (calls w') (ListDirectoryFolders ''../../../data/experiments'') = 0"
    by (simp add: c l)
  ultimately show ?thesis using run by blast
qed

end
